theory Spec2Isabelle
  imports Complex_Main
begin

section \<open>Values\<close>

text \<open>
  The program is an Electron application written in JavaScript. Its numbers are modelled as
  exact reals: rounding, NaN and the infinities of IEEE doubles are outside the model. With
  that reading a number is falsy exactly when it is zero, and a string is falsy exactly when
  it is empty. A value that may be \<^verbatim>\<open>undefined\<close> (a property missing from a message,
  a parameter not passed) is an \<open>option\<close>, with \<open>None\<close> for \<^verbatim>\<open>undefined\<close>.
\<close>

definition Math_floor :: "real \<Rightarrow> real" where
  "Math_floor v = of_int \<lfloor>v\<rfloor>"

text \<open>\<^verbatim>\<open>a || d\<close> on a number, on a string, and on each where the left side may be undefined.\<close>

definition num_or :: "real \<Rightarrow> real \<Rightarrow> real" where
  "num_or a d = (if a = 0 then d else a)"

definition str_or :: "string \<Rightarrow> string \<Rightarrow> string" where
  "str_or a d = (if a = [] then d else a)"

definition opt_num_or :: "real option \<Rightarrow> real \<Rightarrow> real" where
  "opt_num_or a d = (case a of None \<Rightarrow> d | Some v \<Rightarrow> num_or v d)"

definition opt_str_or :: "string option \<Rightarrow> string \<Rightarrow> string" where
  "opt_str_or a d = (case a of None \<Rightarrow> d | Some v \<Rightarrow> str_or v d)"

text \<open>\<^verbatim>\<open>a !== undefined ? a : d\<close>\<close>

definition defined_or :: "'a option \<Rightarrow> 'a \<Rightarrow> 'a" where
  "defined_or a d = (case a of None \<Rightarrow> d | Some v \<Rightarrow> v)"

section \<open>The overlay state\<close>

text \<open>The record kept in \<^verbatim>\<open>currentOverlayState\<close> and under the store key \<^verbatim>\<open>overlayState\<close>.\<close>

record OverlayState =
  color :: string
  opacity :: real
  isActive :: bool
  size_mode :: string
  customWidth :: real
  customHeight :: real
  readingGuideEnabled :: bool
  readingGuideHeight :: real
  readingGuidePosition :: real
  readingGuideStepSize :: real
  readingGuideBorderWidth :: real
  readingGuideBorderColor :: string
  readingGuideBorderStyle :: string

text \<open>The defaults given to \<^verbatim>\<open>electron-store\<close>.\<close>

definition defaults :: OverlayState where
  "defaults = \<lparr> color = ''#ffeb99'', opacity = 0.3, isActive = False,
     size_mode = ''fullscreen'', customWidth = 800, customHeight = 600,
     readingGuideEnabled = False, readingGuideHeight = 100, readingGuidePosition = 50,
     readingGuideStepSize = 0.5, readingGuideBorderWidth = 3,
     readingGuideBorderColor = ''rgba(0,0,0,0.9)'', readingGuideBorderStyle = ''double'' \<rparr>"

text \<open>
  The payload of an \<^verbatim>\<open>update-overlay\<close> message: every property may be missing or
  \<^verbatim>\<open>undefined\<close>.
\<close>

record OverlayUpdate =
  upd_color :: "string option"
  upd_opacity :: "real option"
  upd_isActive :: "bool option"
  upd_size :: "string option"
  upd_customWidth :: "real option"
  upd_customHeight :: "real option"
  upd_readingGuideEnabled :: "bool option"
  upd_readingGuideHeight :: "real option"
  upd_readingGuidePosition :: "real option"
  upd_readingGuideStepSize :: "real option"
  upd_readingGuideBorderWidth :: "real option"
  upd_readingGuideBorderColor :: "string option"
  upd_readingGuideBorderStyle :: "string option"

definition empty_update :: OverlayUpdate where
  "empty_update = \<lparr> upd_color = None, upd_opacity = None, upd_isActive = None,
     upd_size = None, upd_customWidth = None, upd_customHeight = None,
     upd_readingGuideEnabled = None, upd_readingGuideHeight = None,
     upd_readingGuidePosition = None, upd_readingGuideStepSize = None,
     upd_readingGuideBorderWidth = None, upd_readingGuideBorderColor = None,
     upd_readingGuideBorderStyle = None \<rparr>"

text \<open>
  The merge at the head of the main process's \<^verbatim>\<open>update-overlay\<close> handler. Twelve
  fields test \<^verbatim>\<open>!== undefined\<close>; \<^verbatim>\<open>size\<close> is \<^verbatim>\<open>data.size || currentOverlayState.size\<close>.
\<close>

definition merge_state :: "OverlayState \<Rightarrow> OverlayUpdate \<Rightarrow> OverlayState" where
  "merge_state cur data = cur \<lparr>
     color := defined_or (upd_color data) (color cur),
     opacity := defined_or (upd_opacity data) (opacity cur),
     isActive := defined_or (upd_isActive data) (isActive cur),
     size_mode := opt_str_or (upd_size data) (size_mode cur),
     customWidth := defined_or (upd_customWidth data) (customWidth cur),
     customHeight := defined_or (upd_customHeight data) (customHeight cur),
     readingGuideEnabled := defined_or (upd_readingGuideEnabled data) (readingGuideEnabled cur),
     readingGuideHeight := defined_or (upd_readingGuideHeight data) (readingGuideHeight cur),
     readingGuidePosition := defined_or (upd_readingGuidePosition data) (readingGuidePosition cur),
     readingGuideStepSize := defined_or (upd_readingGuideStepSize data) (readingGuideStepSize cur),
     readingGuideBorderWidth :=
       defined_or (upd_readingGuideBorderWidth data) (readingGuideBorderWidth cur),
     readingGuideBorderColor :=
       defined_or (upd_readingGuideBorderColor data) (readingGuideBorderColor cur),
     readingGuideBorderStyle :=
       defined_or (upd_readingGuideBorderStyle data) (readingGuideBorderStyle cur) \<rparr>"

section \<open>The overlay page\<close>

text \<open>
  What the renderer's \<^verbatim>\<open>update-overlay\<close> handler writes: the style of the
  \<^verbatim>\<open>#overlay\<close> element and of the \<^verbatim>\<open>#reading-guide-gap\<close> element. A box shadow is
  the list of its layers, each a vertical offset in pixels and a colour (the horizontal
  offset and the blur are 0 in every layer the handler writes). The opacity is the value
  assigned to the style, with the string \<^verbatim>\<open>'0'\<close> read as the number 0.
\<close>

record OverlayPage =
  style_backgroundColor :: string
  style_opacity :: real
  guide_active :: bool
  guide_height :: real
  guide_top :: real
  guide_boxShadow :: "(real \<times> string) list"

text \<open>
  The model stops at the values the handler assigns. What the page makes of them is outside
  it: an opacity outside 0 to 1 is clamped when it is used, and a negative border width gives
  the text \<^verbatim>\<open>--2px\<close>, which is not valid and leaves the shadow as it was, where
  the model lists the layers.
\<close>

definition initial_page :: OverlayPage where
  "initial_page = \<lparr> style_backgroundColor = ''#ffeb99'', style_opacity = 0.3,
     guide_active = False, guide_height = 0, guide_top = 0, guide_boxShadow = [] \<rparr>"

definition render_update_overlay :: "OverlayState \<Rightarrow> OverlayPage \<Rightarrow> OverlayPage" where
  "render_update_overlay data page =
     (let p1 = page \<lparr> style_backgroundColor := color data,
                      style_opacity := (if isActive data then opacity data else 0) \<rparr>
      in if readingGuideEnabled data then
           (let borderWidth = num_or (readingGuideBorderWidth data) 3;
                borderColor = str_or (readingGuideBorderColor data) ''rgba(0,0,0,0.9)'';
                borderStyle = str_or (readingGuideBorderStyle data) ''double''
            in p1 \<lparr> guide_active := True,
                    guide_height := readingGuideHeight data,
                    guide_top := readingGuidePosition data,
                    guide_boxShadow :=
                      (if borderStyle = ''single'' then [(- borderWidth, borderColor)]
                       else [(- borderWidth, borderColor), (borderWidth, borderColor)]) \<rparr>)
         else p1 \<lparr> guide_active := False \<rparr>)"

section \<open>The main process\<close>

record Bounds =
  bounds_x :: real
  bounds_y :: real
  bounds_width :: real
  bounds_height :: real

text \<open>
  The overlay window as the main process sees it. \<open>win_bounds\<close> is the rectangle last
  passed to \<^verbatim>\<open>setBounds\<close>; \<open>win_page\<close> is the page the window shows.
\<close>

record OverlayWindow =
  win_destroyed :: bool
  win_visible :: bool
  win_fullScreen :: bool
  win_bounds :: Bounds
  win_page :: OverlayPage

text \<open>
  The calls the main process makes on the store and on its two windows, in the order it
  makes them. \<open>CallApplyOverlaySize\<close> records an entry into \<^verbatim>\<open>applyOverlaySize\<close> with
  its three arguments.
\<close>

datatype Effect =
    StoreSet OverlayState
  | SendUpdateOverlay OverlayState
  | SendOverlayToggled bool
  | SetFullScreen bool
  | SetBounds Bounds
  | ShowWindow
  | HideWindow
  | CallApplyOverlaySize string "real option" "real option"

text \<open>
  The module's variables and what they refer to: \<^verbatim>\<open>currentOverlayState\<close>, the store's
  \<^verbatim>\<open>overlayState\<close> entry, \<^verbatim>\<open>overlayWindow\<close> (\<open>None\<close> before it is created),
  \<^verbatim>\<open>mainWindow\<close> (\<open>None\<close> when null, else whether it is destroyed), the work area of
  the primary display (width, height), and the log of calls.
\<close>

record World =
  currentOverlayState :: OverlayState
  store :: OverlayState
  overlayWindow :: "OverlayWindow option"
  mainWindow :: "bool option"
  workAreaSize :: "real \<times> real"
  trace :: "Effect list"

text \<open>A method called on a destroyed window throws.\<close>

datatype error = ObjectDestroyed

definition log_effect :: "Effect \<Rightarrow> World \<Rightarrow> World" where
  "log_effect e w = w \<lparr> trace := trace w @ [e] \<rparr>"

definition store_set :: "OverlayState \<Rightarrow> World \<Rightarrow> World" where
  "store_set s w = log_effect (StoreSet s) (w \<lparr> store := s \<rparr>)"

definition on_window :: "(OverlayWindow \<Rightarrow> OverlayWindow) \<Rightarrow> World \<Rightarrow> World" where
  "on_window f w = w \<lparr> overlayWindow := map_option f (overlayWindow w) \<rparr>"

text \<open>Window methods, on a window that exists and is not destroyed.\<close>

definition win_setFullScreen :: "bool \<Rightarrow> World \<Rightarrow> World" where
  "win_setFullScreen b w =
     log_effect (SetFullScreen b) (on_window (\<lambda>ow. ow \<lparr> win_fullScreen := b \<rparr>) w)"

definition win_setBounds :: "Bounds \<Rightarrow> World \<Rightarrow> World" where
  "win_setBounds r w =
     log_effect (SetBounds r) (on_window (\<lambda>ow. ow \<lparr> win_bounds := r \<rparr>) w)"

definition win_show :: "World \<Rightarrow> World" where
  "win_show w = log_effect ShowWindow (on_window (\<lambda>ow. ow \<lparr> win_visible := True \<rparr>) w)"

definition win_hide :: "World \<Rightarrow> World" where
  "win_hide w = log_effect HideWindow (on_window (\<lambda>ow. ow \<lparr> win_visible := False \<rparr>) w)"

definition win_isVisible :: "World \<Rightarrow> bool" where
  "win_isVisible w = (case overlayWindow w of None \<Rightarrow> False | Some ow \<Rightarrow> win_visible ow)"

text \<open>
  \<^verbatim>\<open>overlayWindow.webContents.send('update-overlay', currentOverlayState)\<close>: the
  snapshot is delivered to the page, whose handler repaints from it.
\<close>

definition win_send :: "World \<Rightarrow> World" where
  "win_send w =
     log_effect (SendUpdateOverlay (currentOverlayState w))
       (on_window (\<lambda>ow. ow \<lparr> win_page :=
          render_update_overlay (currentOverlayState w) (win_page ow) \<rparr>) w)"

text \<open>\<^verbatim>\<open>overlayWindow && !overlayWindow.isDestroyed()\<close>\<close>

definition window_live :: "World \<Rightarrow> bool" where
  "window_live w =
     (case overlayWindow w of None \<Rightarrow> False | Some ow \<Rightarrow> \<not> win_destroyed ow)"

text \<open>
  The first window method a function calls throws when the window is destroyed; the
  functions below make no change before that call.
\<close>

definition or_throw :: "World \<Rightarrow> World \<Rightarrow> error + World" where
  "or_throw w w' = (if window_live w then Inr w' else Inl ObjectDestroyed)"

subsection \<open>The window geometry resolver\<close>

text \<open>
  The products by 0.7 of the \<^verbatim>\<open>center\<close> case are exact here. In the code they are
  products of doubles, and 0.7 is not a double: on some work areas the code's floor is one
  less than this one (1440 * 0.7 is 1007.9999999999999 in the code and floors to 1007; it
  is 1008 here). On 1920 by 1080 both agree: 1344 and 756.
\<close>

definition applyOverlaySize ::
  "string \<Rightarrow> real option \<Rightarrow> real option \<Rightarrow> World \<Rightarrow> error + World" where
  "applyOverlaySize sz cw ch w0 =
     (let w = log_effect (CallApplyOverlaySize sz cw ch) w0 in
      case overlayWindow w of
        None \<Rightarrow> Inr w
      | Some _ \<Rightarrow>
         (let width = fst (workAreaSize w); height = snd (workAreaSize w) in
          if sz = ''fullscreen'' then
            or_throw w (win_setFullScreen True w)
          else if sz = ''top-half'' then
            or_throw w (win_setBounds
              \<lparr> bounds_x = 0, bounds_y = 0, bounds_width = width, bounds_height = Math_floor (height / 2) \<rparr>
              (win_setFullScreen False w))
          else if sz = ''bottom-half'' then
            or_throw w (win_setBounds
              \<lparr> bounds_x = 0, bounds_y = Math_floor (height / 2), bounds_width = width,
                bounds_height = Math_floor (height / 2) \<rparr>
              (win_setFullScreen False w))
          else if sz = ''left-half'' then
            or_throw w (win_setBounds
              \<lparr> bounds_x = 0, bounds_y = 0, bounds_width = Math_floor (width / 2), bounds_height = height \<rparr>
              (win_setFullScreen False w))
          else if sz = ''right-half'' then
            or_throw w (win_setBounds
              \<lparr> bounds_x = Math_floor (width / 2), bounds_y = 0, bounds_width = Math_floor (width / 2),
                bounds_height = height \<rparr>
              (win_setFullScreen False w))
          else if sz = ''center'' then
            (let centerWidth = Math_floor (width * 0.7);
                 centerHeight = Math_floor (height * 0.7)
             in or_throw w (win_setBounds
                  \<lparr> bounds_x = Math_floor ((width - centerWidth) / 2),
                    bounds_y = Math_floor ((height - centerHeight) / 2),
                    bounds_width = centerWidth, bounds_height = centerHeight \<rparr>
                  (win_setFullScreen False w)))
          else if sz = ''custom'' then
            (let cw' = min (opt_num_or cw 800) width;
                 ch' = min (opt_num_or ch 600) height
             in or_throw w (win_setBounds
                  \<lparr> bounds_x = Math_floor ((width - cw') / 2),
                    bounds_y = Math_floor ((height - ch') / 2),
                    bounds_width = cw', bounds_height = ch' \<rparr>
                  (win_setFullScreen False w)))
          else Inr w))"

subsection \<open>The reading guide nudges\<close>

text \<open>
  The sum and the difference are exact here; the code's are rounded to doubles (0.1 + 0.2 is
  0.30000000000000004 there). Rounding is monotone and 0 and 100 are doubles, so the bounds
  the clamps give are the same.
\<close>

definition moveReadingGuideUp :: "World \<Rightarrow> World" where
  "moveReadingGuideUp w =
     (let cur = currentOverlayState w in
      if readingGuideEnabled cur \<and> isActive cur then
        (let stepSize = num_or (readingGuideStepSize cur) 0.5;
             w1 = w \<lparr> currentOverlayState :=
                    cur \<lparr> readingGuidePosition := max 0 (readingGuidePosition cur - stepSize) \<rparr> \<rparr>;
             w2 = (if window_live w1 then win_send w1 else w1)
         in store_set (currentOverlayState w2) w2)
      else w)"

definition moveReadingGuideDown :: "World \<Rightarrow> World" where
  "moveReadingGuideDown w =
     (let cur = currentOverlayState w in
      if readingGuideEnabled cur \<and> isActive cur then
        (let stepSize = num_or (readingGuideStepSize cur) 0.5;
             w1 = w \<lparr> currentOverlayState :=
                    cur \<lparr> readingGuidePosition := min 100 (readingGuidePosition cur + stepSize) \<rparr> \<rparr>;
             w2 = (if window_live w1 then win_send w1 else w1)
         in store_set (currentOverlayState w2) w2)
      else w)"

subsection \<open>The toggle\<close>

definition toggleOverlay :: "World \<Rightarrow> error + World" where
  "toggleOverlay w =
     (case overlayWindow w of
        None \<Rightarrow> Inr w
      | Some ow \<Rightarrow>
         if win_destroyed ow then Inl ObjectDestroyed
         else
           (let newState = \<not> win_isVisible w;
                w1 = w \<lparr> currentOverlayState := (currentOverlayState w) \<lparr> isActive := newState \<rparr> \<rparr>;
                w2 = (if newState then win_show (win_send w1) else win_hide w1);
                w3 = store_set (currentOverlayState w2) w2
            in Inr (if mainWindow w3 = Some False
                    then log_effect (SendOverlayToggled newState) w3 else w3)))"

subsection \<open>The update-overlay handler\<close>

definition ipcMain_on_update_overlay :: "OverlayUpdate \<Rightarrow> World \<Rightarrow> error + World" where
  "ipcMain_on_update_overlay data w =
     (let w1 = w \<lparr> currentOverlayState := merge_state (currentOverlayState w) data \<rparr>;
          w2 = store_set (currentOverlayState w1) w1
      in if window_live w2 then
           (case (case upd_size data of
                    None \<Rightarrow> Inr w2
                  | Some sz \<Rightarrow>
                     if sz = [] then Inr w2
                     else applyOverlaySize sz (upd_customWidth data) (upd_customHeight data) w2) of
              Inl e \<Rightarrow> Inl e
            | Inr w3 \<Rightarrow>
               (let w4 = win_send w3;
                    currentlyVisible = win_isVisible w4
                in Inr (if isActive (currentOverlayState w4) \<and> \<not> currentlyVisible
                          then win_show w4
                        else if \<not> isActive (currentOverlayState w4) \<and> currentlyVisible
                          then win_hide w4
                        else w4)))
         else Inr w2)"

section \<open>The control surface\<close>

text \<open>
  The React state of \<^verbatim>\<open>App\<close> that its messages are built from, the two refs
  \<^verbatim>\<open>isInitialLoad\<close> and \<^verbatim>\<open>lastClickTime\<close>, and whether \<^verbatim>\<open>window.electron\<close>
  is there.
\<close>

record AppState =
  app_currentColor :: string
  app_opacity :: real
  app_isActive :: bool
  app_overlaySize :: string
  app_customWidth :: real
  app_customHeight :: real
  app_readingGuideEnabled :: bool
  app_readingGuideHeight :: real
  app_readingGuideStepSize :: real
  app_readingGuideBorderWidth :: real
  app_readingGuideBorderColor :: string
  app_readingGuideBorderStyle :: string
  app_isInitialLoad :: bool
  app_lastClickTime :: int
  app_hasElectron :: bool

text \<open>
  \<^verbatim>\<open>updateOverlay\<close> of the preload script: the message it sends on the channel
  \<^verbatim>\<open>update-overlay\<close>. The first three parameters are required by the declaration in
  \<^verbatim>\<open>App\<close>, the other ten are optional.
\<close>

definition updateOverlay ::
  "string \<Rightarrow> real \<Rightarrow> bool \<Rightarrow> string option \<Rightarrow> real option \<Rightarrow> real option \<Rightarrow> bool option \<Rightarrow>
   real option \<Rightarrow> real option \<Rightarrow> real option \<Rightarrow> real option \<Rightarrow> string option \<Rightarrow>
   string option \<Rightarrow> OverlayUpdate" where
  "updateOverlay c opa act sz cw ch rgEnabled rgHeight rgPosition rgStepSize rgBorderWidth
     rgBorderColor rgBorderStyle =
     \<lparr> upd_color = Some c, upd_opacity = Some opa, upd_isActive = Some act, upd_size = sz,
       upd_customWidth = cw, upd_customHeight = ch, upd_readingGuideEnabled = rgEnabled,
       upd_readingGuideHeight = rgHeight, upd_readingGuidePosition = rgPosition,
       upd_readingGuideStepSize = rgStepSize, upd_readingGuideBorderWidth = rgBorderWidth,
       upd_readingGuideBorderColor = rgBorderColor,
       upd_readingGuideBorderStyle = rgBorderStyle \<rparr>"

text \<open>The message both call sites of \<^verbatim>\<open>App\<close> build, for a given activation flag.\<close>

definition app_message :: "AppState \<Rightarrow> bool \<Rightarrow> OverlayUpdate" where
  "app_message a act =
     updateOverlay (app_currentColor a) (app_opacity a) act (Some (app_overlaySize a))
       (Some (app_customWidth a)) (Some (app_customHeight a))
       (Some (app_readingGuideEnabled a)) (Some (app_readingGuideHeight a)) (Some 50)
       (Some (app_readingGuideStepSize a)) (Some (app_readingGuideBorderWidth a))
       (Some (app_readingGuideBorderColor a)) (Some (app_readingGuideBorderStyle a))"

text \<open>
  The settings-sync effect, run when one of the twelve settings has changed: the message
  it sends, if any.
\<close>

definition settingsSyncEffect :: "AppState \<Rightarrow> OverlayUpdate option" where
  "settingsSyncEffect a =
     (if app_isInitialLoad a then None
      else if app_hasElectron a then Some (app_message a (app_isActive a))
      else None)"

text \<open>
  \<^verbatim>\<open>handleToggleOverlay\<close> at time \<open>now\<close> (milliseconds): the new state of the
  component and the message it sends, if any.
\<close>

definition handleToggleOverlay :: "int \<Rightarrow> AppState \<Rightarrow> AppState \<times> OverlayUpdate option" where
  "handleToggleOverlay now a =
     (if now - app_lastClickTime a < 300 then (a, None)
      else
        (let newState = \<not> app_isActive a;
             a' = a \<lparr> app_lastClickTime := now, app_isActive := newState \<rparr>
         in (a', if app_hasElectron a then Some (app_message a newState) else None)))"

section \<open>Reading the state and the log\<close>

definition window_bounds :: "World \<Rightarrow> Bounds option" where
  "window_bounds w = map_option win_bounds (overlayWindow w)"

definition window_fullScreen :: "World \<Rightarrow> bool option" where
  "window_fullScreen w = map_option win_fullScreen (overlayWindow w)"

definition window_page :: "World \<Rightarrow> OverlayPage option" where
  "window_page w = map_option win_page (overlayWindow w)"

text \<open>The seven size modes \<^verbatim>\<open>applyOverlaySize\<close> has a case for.\<close>

definition size_modes :: "string list" where
  "size_modes = [''fullscreen'', ''top-half'', ''bottom-half'', ''left-half'', ''right-half'',
     ''center'', ''custom'']"

definition is_resolver_call :: "Effect \<Rightarrow> bool" where
  "is_resolver_call e = (case e of CallApplyOverlaySize _ _ _ \<Rightarrow> True | _ \<Rightarrow> False)"

definition is_broadcast :: "Effect \<Rightarrow> bool" where
  "is_broadcast e = (case e of SendUpdateOverlay _ \<Rightarrow> True | _ \<Rightarrow> False)"

text \<open>The entries into the resolver, and the snapshots sent to the overlay, in a log.\<close>

definition resolver_calls :: "Effect list \<Rightarrow> Effect list" where
  "resolver_calls es = filter is_resolver_call es"

definition broadcasts :: "Effect list \<Rightarrow> Effect list" where
  "broadcasts es = filter is_broadcast es"

text \<open>The log and the state a call leaves, when it returns.\<close>

definition result_trace :: "error + World \<Rightarrow> Effect list option" where
  "result_trace r = (case r of Inl _ \<Rightarrow> None | Inr w \<Rightarrow> Some (trace w))"

definition result_state :: "error + World \<Rightarrow> OverlayState option" where
  "result_state r = (case r of Inl _ \<Rightarrow> None | Inr w \<Rightarrow> Some (currentOverlayState w))"

definition result_bounds :: "error + World \<Rightarrow> Bounds option" where
  "result_bounds r = (case r of Inl _ \<Rightarrow> None | Inr w \<Rightarrow> window_bounds w)"

section \<open>Concrete states\<close>

text \<open>
  The state after start-up on a 1920 by 1080 work area with an empty store: the overlay
  window exists, hidden and full screen, and the control window is open.
\<close>

definition world0 :: World where
  "world0 = \<lparr> currentOverlayState = defaults, store = defaults,
     overlayWindow = Some \<lparr> win_destroyed = False, win_visible = False, win_fullScreen = True,
       win_bounds = \<lparr> bounds_x = 0, bounds_y = 0, bounds_width = 1920, bounds_height = 1080 \<rparr>,
       win_page = initial_page \<rparr>,
     mainWindow = Some False, workAreaSize = (1920, 1080), trace = [] \<rparr>"

text \<open>The same with the overlay shown, the guide enabled, at a given position and step size.\<close>

definition guide_world :: "real \<Rightarrow> real \<Rightarrow> World" where
  "guide_world pos step = on_window (\<lambda>ow. ow \<lparr> win_visible := True \<rparr>)
     (world0 \<lparr> currentOverlayState := defaults \<lparr> isActive := True, readingGuideEnabled := True,
        readingGuidePosition := pos, readingGuideStepSize := step \<rparr> \<rparr>)"

text \<open>
  The state after start-up on the same work area when the store holds the size mode
  \<^verbatim>\<open>custom\<close> with the default 800 by 600: the resolver has cleared the full-screen
  flag and centred the window.
\<close>

definition custom_world :: World where
  "custom_world = \<lparr> currentOverlayState = defaults \<lparr> size_mode := ''custom'' \<rparr>,
     store = defaults \<lparr> size_mode := ''custom'' \<rparr>,
     overlayWindow = Some \<lparr> win_destroyed = False, win_visible = False, win_fullScreen = False,
       win_bounds = \<lparr> bounds_x = 560, bounds_y = 240, bounds_width = 800, bounds_height = 600 \<rparr>,
       win_page = initial_page \<rparr>,
     mainWindow = Some False, workAreaSize = (1920, 1080), trace = [] \<rparr>"

text \<open>
  The control surface after start-up, once the user has picked the preset colour
  \<^verbatim>\<open>#b3d9ff\<close>; every other setting is the default.
\<close>

definition preset_picked :: AppState where
  "preset_picked = \<lparr> app_currentColor = ''#b3d9ff'', app_opacity = 0.3, app_isActive = False,
     app_overlaySize = ''fullscreen'', app_customWidth = 800, app_customHeight = 600,
     app_readingGuideEnabled = False, app_readingGuideHeight = 100,
     app_readingGuideStepSize = 0.5, app_readingGuideBorderWidth = 3,
     app_readingGuideBorderColor = ''rgba(0,0,0,0.9)'', app_readingGuideBorderStyle = ''double'',
     app_isInitialLoad = False, app_lastClickTime = 0, app_hasElectron = True \<rparr>"

text \<open>The start-up state with a stored \<^verbatim>\<open>isActive\<close> that says shown while the window is hidden.\<close>

definition drifted_world :: World where
  "drifted_world = world0 \<lparr> currentOverlayState := defaults \<lparr> isActive := True \<rparr> \<rparr>"

section \<open>The merge of a partial update\<close>

text \<open>
  C1: for every state \<open>S\<close> and every update \<open>U\<close> whose \<^verbatim>\<open>size\<close>, if it has one, is
  not the empty string (none of the size modes is), each of the thirteen fields of the
  merged state is the value of \<open>U\<close> where \<open>U\<close> has the field and the value of \<open>S\<close>
  where it has not.
\<close>

theorem merge_state_fields:
  assumes "upd_size U \<noteq> Some []"
  shows
  "color (merge_state S U) = (case upd_color U of None \<Rightarrow> color S | Some v \<Rightarrow> v) \<and>
   opacity (merge_state S U) = (case upd_opacity U of None \<Rightarrow> opacity S | Some v \<Rightarrow> v) \<and>
   isActive (merge_state S U) = (case upd_isActive U of None \<Rightarrow> isActive S | Some v \<Rightarrow> v) \<and>
   size_mode (merge_state S U) = (case upd_size U of None \<Rightarrow> size_mode S | Some v \<Rightarrow> v) \<and>
   customWidth (merge_state S U) =
     (case upd_customWidth U of None \<Rightarrow> customWidth S | Some v \<Rightarrow> v) \<and>
   customHeight (merge_state S U) =
     (case upd_customHeight U of None \<Rightarrow> customHeight S | Some v \<Rightarrow> v) \<and>
   readingGuideEnabled (merge_state S U) =
     (case upd_readingGuideEnabled U of None \<Rightarrow> readingGuideEnabled S | Some v \<Rightarrow> v) \<and>
   readingGuideHeight (merge_state S U) =
     (case upd_readingGuideHeight U of None \<Rightarrow> readingGuideHeight S | Some v \<Rightarrow> v) \<and>
   readingGuidePosition (merge_state S U) =
     (case upd_readingGuidePosition U of None \<Rightarrow> readingGuidePosition S | Some v \<Rightarrow> v) \<and>
   readingGuideStepSize (merge_state S U) =
     (case upd_readingGuideStepSize U of None \<Rightarrow> readingGuideStepSize S | Some v \<Rightarrow> v) \<and>
   readingGuideBorderWidth (merge_state S U) =
     (case upd_readingGuideBorderWidth U of None \<Rightarrow> readingGuideBorderWidth S | Some v \<Rightarrow> v) \<and>
   readingGuideBorderColor (merge_state S U) =
     (case upd_readingGuideBorderColor U of None \<Rightarrow> readingGuideBorderColor S | Some v \<Rightarrow> v) \<and>
   readingGuideBorderStyle (merge_state S U) =
     (case upd_readingGuideBorderStyle U of None \<Rightarrow> readingGuideBorderStyle S | Some v \<Rightarrow> v)"
  using assms
  by (simp add: merge_state_def defined_or_def opt_str_or_def str_or_def split: option.split)

text \<open>
  An update with the size \<^verbatim>\<open>center\<close> and the opacity 0.5 and nothing else, merged
  into the defaults: these two fields are the update's, the others the defaults'.
\<close>

theorem merge_state_fields_witness:
  "upd_size (empty_update \<lparr> upd_size := Some ''center'', upd_opacity := Some 0.5 \<rparr>) \<noteq> Some [] \<and>
   merge_state defaults (empty_update \<lparr> upd_size := Some ''center'', upd_opacity := Some 0.5 \<rparr>)
     = defaults \<lparr> size_mode := ''center'', opacity := 0.5 \<rparr>"
  using merge_state_fields [of "empty_update \<lparr> upd_size := Some ''center'', upd_opacity := Some 0.5 \<rparr>"
    defaults]
  by (simp add: empty_update_def defaults_def)

text \<open>
  The empty string is not a size mode, and the control surface takes its size from a list
  of the seven modes; if an update carried it all the same, the merge would keep the prior
  size, since the size is merged with \<^verbatim>\<open>||\<close>.
\<close>

lemma merge_state_empty_size:
  "size_mode (merge_state S (U \<lparr> upd_size := Some [] \<rparr>)) = size_mode S"
  by (simp add: merge_state_def opt_str_or_def str_or_def)

section \<open>The reading guide nudges\<close>

lemma nudge_up_state:
  "readingGuideEnabled (currentOverlayState w) \<Longrightarrow> isActive (currentOverlayState w) \<Longrightarrow>
   currentOverlayState (moveReadingGuideUp w) = (currentOverlayState w)
     \<lparr> readingGuidePosition := max 0 (readingGuidePosition (currentOverlayState w)
          - num_or (readingGuideStepSize (currentOverlayState w)) 0.5) \<rparr>"
  by (simp add: moveReadingGuideUp_def Let_def store_set_def log_effect_def win_send_def
      on_window_def)

lemma nudge_down_state:
  "readingGuideEnabled (currentOverlayState w) \<Longrightarrow> isActive (currentOverlayState w) \<Longrightarrow>
   currentOverlayState (moveReadingGuideDown w) = (currentOverlayState w)
     \<lparr> readingGuidePosition := min 100 (readingGuidePosition (currentOverlayState w)
          + num_or (readingGuideStepSize (currentOverlayState w)) 0.5) \<rparr>"
  by (simp add: moveReadingGuideDown_def Let_def store_set_def log_effect_def win_send_def
      on_window_def)

lemma nudge_persisted:
  "readingGuideEnabled (currentOverlayState w) \<Longrightarrow> isActive (currentOverlayState w) \<Longrightarrow>
   store (moveReadingGuideUp w) = currentOverlayState (moveReadingGuideUp w) \<and>
   store (moveReadingGuideDown w) = currentOverlayState (moveReadingGuideDown w)"
  by (simp add: moveReadingGuideUp_def moveReadingGuideDown_def Let_def store_set_def
      log_effect_def win_send_def on_window_def)

lemma guide_world_state:
  "currentOverlayState (guide_world pos step) =
     defaults \<lparr> isActive := True, readingGuideEnabled := True,
       readingGuidePosition := pos, readingGuideStepSize := step \<rparr>"
  by (simp add: guide_world_def on_window_def)

text \<open>
  C2, as the code has it: a nudge that takes effect, from a position in [0, 100] and with a
  step size that is not negative, leaves the position in [0, 100], in the state and in the
  store (a step size of 0 is replaced by 0.5).
\<close>

theorem nudge_position_in_range:
  assumes "readingGuideEnabled (currentOverlayState w)" and "isActive (currentOverlayState w)"
    and "0 \<le> readingGuidePosition (currentOverlayState w)"
    and "readingGuidePosition (currentOverlayState w) \<le> 100"
    and "0 \<le> readingGuideStepSize (currentOverlayState w)"
  shows "0 \<le> readingGuidePosition (currentOverlayState (moveReadingGuideUp w)) \<and>
         readingGuidePosition (currentOverlayState (moveReadingGuideUp w)) \<le> 100 \<and>
         0 \<le> readingGuidePosition (currentOverlayState (moveReadingGuideDown w)) \<and>
         readingGuidePosition (currentOverlayState (moveReadingGuideDown w)) \<le> 100 \<and>
         0 \<le> readingGuidePosition (store (moveReadingGuideUp w)) \<and>
         readingGuidePosition (store (moveReadingGuideUp w)) \<le> 100 \<and>
         0 \<le> readingGuidePosition (store (moveReadingGuideDown w)) \<and>
         readingGuidePosition (store (moveReadingGuideDown w)) \<le> 100"
proof -
  let ?p = "readingGuidePosition (currentOverlayState w)"
  let ?s = "num_or (readingGuideStepSize (currentOverlayState w)) 0.5"
  have step: "0 \<le> ?s"
    using assms(5) by (simp add: num_or_def)
  have up: "readingGuidePosition (currentOverlayState (moveReadingGuideUp w)) = max 0 (?p - ?s)"
    using assms(1,2) by (simp add: nudge_up_state)
  have down: "readingGuidePosition (currentOverlayState (moveReadingGuideDown w)) = min 100 (?p + ?s)"
    using assms(1,2) by (simp add: nudge_down_state)
  have "0 \<le> max 0 (?p - ?s)" "max 0 (?p - ?s) \<le> 100"
       "0 \<le> min 100 (?p + ?s)" "min 100 (?p + ?s) \<le> 100"
    using assms(3,4) step by simp_all
  then show ?thesis
    using up down nudge_persisted [OF assms(1,2)] by simp
qed

theorem nudge_position_in_range_witness:
  "readingGuideEnabled (currentOverlayState (guide_world 0.25 0.5)) \<and>
   isActive (currentOverlayState (guide_world 0.25 0.5)) \<and>
   readingGuidePosition (currentOverlayState (guide_world 0.25 0.5)) = 0.25 \<and>
   readingGuideStepSize (currentOverlayState (guide_world 0.25 0.5)) = 0.5 \<and>
   0 \<le> readingGuidePosition (currentOverlayState (moveReadingGuideUp (guide_world 0.25 0.5))) \<and>
   readingGuidePosition (currentOverlayState (moveReadingGuideUp (guide_world 0.25 0.5))) \<le> 100 \<and>
   0 \<le> readingGuidePosition (currentOverlayState (moveReadingGuideDown (guide_world 0.25 0.5))) \<and>
   readingGuidePosition (currentOverlayState (moveReadingGuideDown (guide_world 0.25 0.5))) \<le> 100"
  using nudge_position_in_range [of "guide_world 0.25 0.5"]
  by (simp add: guide_world_state)

text \<open>
  C2 as stated fails, in the starting value and in the sign of the step: moving up from
  position 200 with step 0.5 gives 199.5; moving up from 98 with step -5 gives 103; moving
  down from -200 with step 0.5 gives -199.5. Each nudge clamps on one side only.
\<close>

theorem nudge_out_of_range_counterexample:
  "readingGuidePosition (currentOverlayState (moveReadingGuideUp (guide_world 200 0.5))) = 199.5 \<and>
   readingGuidePosition (currentOverlayState (moveReadingGuideUp (guide_world 98 (-5)))) = 103 \<and>
   readingGuidePosition (currentOverlayState (moveReadingGuideDown (guide_world (-200) 0.5)))
     = -199.5"
  by (simp add: nudge_up_state nudge_down_state guide_world_state num_or_def)

text \<open>
  C6: when the guide is not enabled or the overlay is not active, either nudge returns the
  whole state of the main process as it was: the position, the store, the windows and the
  log of calls, so that nothing is written to the store and nothing is sent.
\<close>

theorem nudge_noop:
  "\<not> (readingGuideEnabled (currentOverlayState w) \<and> isActive (currentOverlayState w)) \<Longrightarrow>
   moveReadingGuideUp w = w \<and> moveReadingGuideDown w = w"
  by (auto simp add: moveReadingGuideUp_def moveReadingGuideDown_def Let_def)

theorem nudge_noop_witness:
  "\<not> (readingGuideEnabled (currentOverlayState world0) \<and> isActive (currentOverlayState world0)) \<and>
   moveReadingGuideUp world0 = world0 \<and> moveReadingGuideDown world0 = world0"
  using nudge_noop [of world0]
  by (simp add: world0_def defaults_def)

section \<open>Facts about the primitives\<close>

lemmas world_ops = log_effect_def store_set_def on_window_def win_setFullScreen_def
  win_setBounds_def win_show_def win_hide_def win_send_def win_isVisible_def window_live_def
  or_throw_def

lemma world0_live: "window_live world0"
  by (simp add: world0_def window_live_def)

lemma window_liveE:
  assumes "window_live w"
  obtains ow where "overlayWindow w = Some ow" and "\<not> win_destroyed ow"
  using assms by (auto simp add: window_live_def split: option.splits)

lemma resolver_calls_simps:
  "resolver_calls [] = []"
  "resolver_calls (xs @ ys) = resolver_calls xs @ resolver_calls ys"
  "resolver_calls (CallApplyOverlaySize sz cw ch # es) =
     CallApplyOverlaySize sz cw ch # resolver_calls es"
  "resolver_calls (StoreSet s # es) = resolver_calls es"
  "resolver_calls (SendUpdateOverlay s # es) = resolver_calls es"
  "resolver_calls (SendOverlayToggled b # es) = resolver_calls es"
  "resolver_calls (SetFullScreen b # es) = resolver_calls es"
  "resolver_calls (SetBounds r # es) = resolver_calls es"
  "resolver_calls (ShowWindow # es) = resolver_calls es"
  "resolver_calls (HideWindow # es) = resolver_calls es"
  by (simp_all add: resolver_calls_def is_resolver_call_def)

lemma broadcasts_simps:
  "broadcasts [] = []"
  "broadcasts (xs @ ys) = broadcasts xs @ broadcasts ys"
  "broadcasts (CallApplyOverlaySize sz cw ch # es) = broadcasts es"
  "broadcasts (StoreSet s # es) = broadcasts es"
  "broadcasts (SendUpdateOverlay s # es) = SendUpdateOverlay s # broadcasts es"
  "broadcasts (SendOverlayToggled b # es) = broadcasts es"
  "broadcasts (SetFullScreen b # es) = broadcasts es"
  "broadcasts (SetBounds r # es) = broadcasts es"
  "broadcasts (ShowWindow # es) = broadcasts es"
  "broadcasts (HideWindow # es) = broadcasts es"
  by (simp_all add: broadcasts_def is_broadcast_def)

text \<open>The resolver on a live window: it returns, and touches the window's geometry only.\<close>

lemma applyOverlaySize_live:
  assumes "window_live w"
  shows "\<exists>w' g. applyOverlaySize sz cw ch w = Inr w' \<and>
           currentOverlayState w' = currentOverlayState w \<and> store w' = store w \<and>
           mainWindow w' = mainWindow w \<and> window_live w' \<and>
           win_isVisible w' = win_isVisible w \<and> window_page w' = window_page w \<and>
           trace w' = trace w @ CallApplyOverlaySize sz cw ch # g \<and>
           resolver_calls g = [] \<and> broadcasts g = []"
proof -
  from assms obtain ow where ow: "overlayWindow w = Some ow" "\<not> win_destroyed ow"
    by (rule window_liveE)
  show ?thesis
    using ow
    by (simp add: applyOverlaySize_def Let_def world_ops window_page_def
        resolver_calls_simps broadcasts_simps)
qed

section \<open>The window geometry resolver\<close>

text \<open>
  C3: on a live overlay window and a work area of 1920 by 1080, the resolver sets the bounds
  to x 0, y 0, width 1920, height 540 for \<^verbatim>\<open>top-half\<close>; to x 288, y 162, width 1344,
  height 756 for \<^verbatim>\<open>center\<close>; and for \<^verbatim>\<open>custom\<close> with a custom width of 3000 to a
  width of 1920 at x 0, whatever the custom height. (In double arithmetic too the products
  1920 * 0.7 and 1080 * 0.7 round to 1344 and 756.)
\<close>

theorem geometry_1920x1080:
  assumes "window_live w" and "workAreaSize w = (1920, 1080)"
  shows "(\<exists>w'. applyOverlaySize ''top-half'' cw ch w = Inr w' \<and>
            window_bounds w' =
              Some \<lparr> bounds_x = 0, bounds_y = 0, bounds_width = 1920, bounds_height = 540 \<rparr>) \<and>
         (\<exists>w'. applyOverlaySize ''center'' cw ch w = Inr w' \<and>
            window_bounds w' =
              Some \<lparr> bounds_x = 288, bounds_y = 162, bounds_width = 1344, bounds_height = 756 \<rparr>) \<and>
         (\<exists>w'. applyOverlaySize ''custom'' (Some 3000) ch w = Inr w' \<and>
            map_option bounds_width (window_bounds w') = Some 1920 \<and>
            map_option bounds_x (window_bounds w') = Some 0)"
proof -
  from assms(1) obtain ow where ow: "overlayWindow w = Some ow" "\<not> win_destroyed ow"
    by (rule window_liveE)
  have top: "\<exists>w'. applyOverlaySize ''top-half'' cw ch w = Inr w' \<and>
            window_bounds w' =
              Some \<lparr> bounds_x = 0, bounds_y = 0, bounds_width = 1920, bounds_height = 540 \<rparr>"
    using ow assms(2)
    by (simp add: applyOverlaySize_def Let_def world_ops window_bounds_def Math_floor_def)
  have center: "\<exists>w'. applyOverlaySize ''center'' cw ch w = Inr w' \<and>
            window_bounds w' =
              Some \<lparr> bounds_x = 288, bounds_y = 162, bounds_width = 1344, bounds_height = 756 \<rparr>"
    using ow assms(2)
    by (simp add: applyOverlaySize_def Let_def world_ops window_bounds_def Math_floor_def)
  have custom: "\<exists>w'. applyOverlaySize ''custom'' (Some 3000) ch w = Inr w' \<and>
            map_option bounds_width (window_bounds w') = Some 1920 \<and>
            map_option bounds_x (window_bounds w') = Some 0"
    using ow assms(2)
    by (simp add: applyOverlaySize_def Let_def world_ops window_bounds_def Math_floor_def
        opt_num_or_def num_or_def)
  from top center custom show ?thesis by blast
qed

theorem geometry_1920x1080_witness:
  "window_live world0 \<and> workAreaSize world0 = (1920, 1080) \<and>
   (\<exists>w'. applyOverlaySize ''top-half'' None (Some 600) world0 = Inr w' \<and>
      window_bounds w' =
        Some \<lparr> bounds_x = 0, bounds_y = 0, bounds_width = 1920, bounds_height = 540 \<rparr>) \<and>
   (\<exists>w'. applyOverlaySize ''center'' None (Some 600) world0 = Inr w' \<and>
      window_bounds w' =
        Some \<lparr> bounds_x = 288, bounds_y = 162, bounds_width = 1344, bounds_height = 756 \<rparr>) \<and>
   (\<exists>w'. applyOverlaySize ''custom'' (Some 3000) (Some 600) world0 = Inr w' \<and>
      map_option bounds_width (window_bounds w') = Some 1920 \<and>
      map_option bounds_x (window_bounds w') = Some 0)"
  using geometry_1920x1080 [where w = world0 and cw = None and ch = "Some 600"] world0_live
  by (simp add: world0_def)

text \<open>
  C8: for a size that is none of the seven modes the resolver returns without an error, and
  the windows (so the full-screen flag and the bounds), the state and the store are as they
  were; the log gains the entry into the resolver and no call on the window.
\<close>

theorem unrecognized_size_noop:
  assumes "sz \<notin> set size_modes"
  shows "\<exists>w'. applyOverlaySize sz cw ch w = Inr w' \<and>
           overlayWindow w' = overlayWindow w \<and> mainWindow w' = mainWindow w \<and>
           window_fullScreen w' = window_fullScreen w \<and> window_bounds w' = window_bounds w \<and>
           currentOverlayState w' = currentOverlayState w \<and> store w' = store w \<and>
           trace w' = trace w @ [CallApplyOverlaySize sz cw ch]"
  using assms
  by (simp add: applyOverlaySize_def Let_def size_modes_def log_effect_def
      window_fullScreen_def window_bounds_def split: option.split)

theorem unrecognized_size_noop_witness:
  "''middle'' \<notin> set size_modes \<and>
   (\<exists>w'. applyOverlaySize ''middle'' (Some 800) (Some 600) world0 = Inr w' \<and>
      overlayWindow w' = overlayWindow world0 \<and>
      window_fullScreen w' = Some True \<and>
      window_bounds w' =
        Some \<lparr> bounds_x = 0, bounds_y = 0, bounds_width = 1920, bounds_height = 1080 \<rparr> \<and>
      trace w' = [CallApplyOverlaySize ''middle'' (Some 800) (Some 600)])"
  using unrecognized_size_noop [of "''middle''" "Some 800" "Some 600" world0]
  by (auto simp add: size_modes_def world0_def window_fullScreen_def window_bounds_def)

text \<open>
  C10: in custom mode, on a live window and a work area whose width and height are
  positive, the width set is the minimum of the display width and the custom width, with
  800 in place of a custom width that is undefined or 0, and the height likewise with 600;
  neither is 0; a negative custom width or height is the width or height set; and the
  rectangle is centred.
\<close>

theorem custom_size_fallbacks:
  assumes "window_live w" and "workAreaSize w = (W, H)" and "0 < W" and "0 < H"
  shows "\<exists>w' b. applyOverlaySize ''custom'' cw ch w = Inr w' \<and> window_bounds w' = Some b \<and>
           bounds_width b = min (case cw of None \<Rightarrow> 800 | Some c \<Rightarrow> if c = 0 then 800 else c) W \<and>
           bounds_height b = min (case ch of None \<Rightarrow> 600 | Some c \<Rightarrow> if c = 0 then 600 else c) H \<and>
           bounds_width b \<noteq> 0 \<and> bounds_height b \<noteq> 0 \<and>
           (\<forall>c. cw = Some c \<and> c < 0 \<longrightarrow> bounds_width b = c) \<and>
           (\<forall>c. ch = Some c \<and> c < 0 \<longrightarrow> bounds_height b = c) \<and>
           bounds_x b = Math_floor ((W - bounds_width b) / 2) \<and>
           bounds_y b = Math_floor ((H - bounds_height b) / 2)"
proof -
  from assms(1) obtain ow where ow: "overlayWindow w = Some ow" "\<not> win_destroyed ow"
    by (rule window_liveE)
  show ?thesis
    using ow assms(2-4)
    by (auto simp add: applyOverlaySize_def Let_def world_ops window_bounds_def
        opt_num_or_def num_or_def split: option.split)
qed

text \<open>
  On the 1920 by 1080 work area: a custom width of 0 with no custom height gives 800 by
  600 at (560, 240); a custom width of -5 with a custom height of 0 gives a width of -5.
\<close>

theorem custom_size_fallbacks_witness:
  "window_live world0 \<and> workAreaSize world0 = (1920, 1080) \<and>
   (\<exists>w'. applyOverlaySize ''custom'' (Some 0) None world0 = Inr w' \<and>
      window_bounds w' =
        Some \<lparr> bounds_x = 560, bounds_y = 240, bounds_width = 800, bounds_height = 600 \<rparr>) \<and>
   (\<exists>w'. applyOverlaySize ''custom'' (Some (-5)) (Some 0) world0 = Inr w' \<and>
      map_option bounds_width (window_bounds w') = Some (-5) \<and>
      map_option bounds_height (window_bounds w') = Some 600)"
proof -
  have live: "window_live world0" and area: "workAreaSize world0 = (1920, 1080)"
    by (simp_all add: world0_def window_live_def)
  from custom_size_fallbacks [OF live area, of "Some 0" None]
  obtain w1 b1 where 1: "applyOverlaySize ''custom'' (Some 0) None world0 = Inr w1"
    "window_bounds w1 = Some b1" "bounds_width b1 = 800" "bounds_height b1 = 600"
    "bounds_x b1 = Math_floor ((1920 - bounds_width b1) / 2)"
    "bounds_y b1 = Math_floor ((1080 - bounds_height b1) / 2)"
    by auto
  have b1: "b1 = \<lparr> bounds_x = 560, bounds_y = 240, bounds_width = 800, bounds_height = 600 \<rparr>"
    using 1(3-6) by (simp add: Math_floor_def)
  from custom_size_fallbacks [OF live area, of "Some (-5)" "Some 0"]
  obtain w2 b2 where 2: "applyOverlaySize ''custom'' (Some (-5)) (Some 0) world0 = Inr w2"
    "window_bounds w2 = Some b2" "bounds_width b2 = -5" "bounds_height b2 = 600"
    by auto
  show ?thesis
    using live area 1(1,2) b1 2 by simp
qed

section \<open>The update-overlay handler\<close>

text \<open>The handler on a live window, step by step.\<close>

lemma update_overlay_live:
  assumes "window_live w"
  shows "\<exists>w' pre post. ipcMain_on_update_overlay data w = Inr w' \<and>
           currentOverlayState w' = merge_state (currentOverlayState w) data \<and>
           store w' = merge_state (currentOverlayState w) data \<and>
           win_isVisible w' = isActive (merge_state (currentOverlayState w) data) \<and>
           trace w' = trace w @ pre @
             [SendUpdateOverlay (merge_state (currentOverlayState w) data)] @ post \<and>
           resolver_calls pre =
             (case upd_size data of None \<Rightarrow> []
              | Some sz \<Rightarrow> if sz = [] then []
                  else [CallApplyOverlaySize sz (upd_customWidth data) (upd_customHeight data)]) \<and>
           broadcasts pre = [] \<and> resolver_calls post = [] \<and> broadcasts post = []"
proof -
  let ?s = "merge_state (currentOverlayState w) data"
  let ?w1 = "w \<lparr> currentOverlayState := ?s \<rparr>"
  let ?w2 = "store_set (currentOverlayState ?w1) ?w1"
  let ?calls = "case upd_size data of None \<Rightarrow> []
              | Some sz \<Rightarrow> if sz = [] then []
                  else [CallApplyOverlaySize sz (upd_customWidth data) (upd_customHeight data)]"
  have live2: "window_live ?w2"
    using assms by (simp add: world_ops)
  have w2: "currentOverlayState ?w2 = ?s" "store ?w2 = ?s" "trace ?w2 = trace w @ [StoreSet ?s]"
    by (simp_all add: world_ops)
  have "\<exists>w3 g. (case upd_size data of None \<Rightarrow> Inr ?w2
            | Some sz \<Rightarrow> if sz = [] then Inr ?w2
                else applyOverlaySize sz (upd_customWidth data) (upd_customHeight data) ?w2)
            = Inr w3 \<and>
          currentOverlayState w3 = ?s \<and> store w3 = ?s \<and> window_live w3 \<and>
          trace w3 = trace w @ StoreSet ?s # g \<and> resolver_calls g = ?calls \<and> broadcasts g = []"
  proof (cases "upd_size data")
    case None
    then show ?thesis
      using live2 w2 by (simp add: resolver_calls_simps broadcasts_simps)
  next
    case (Some sz)
    show ?thesis
    proof (cases "sz = []")
      case True
      then show ?thesis
        using Some live2 w2 by (simp add: resolver_calls_simps broadcasts_simps)
    next
      case False
      from applyOverlaySize_live [OF live2, of sz "upd_customWidth data" "upd_customHeight data"]
      obtain w3 g where
        "applyOverlaySize sz (upd_customWidth data) (upd_customHeight data) ?w2 = Inr w3"
        "currentOverlayState w3 = currentOverlayState ?w2" "store w3 = store ?w2"
        "window_live w3"
        "trace w3 = trace ?w2 @ CallApplyOverlaySize sz (upd_customWidth data) (upd_customHeight data) # g"
        "resolver_calls g = []" "broadcasts g = []"
        by blast
      then show ?thesis
        using Some False w2 by (simp add: resolver_calls_simps broadcasts_simps)
    qed
  qed
  then obtain w3 g where w3:
    "(case upd_size data of None \<Rightarrow> Inr ?w2
      | Some sz \<Rightarrow> if sz = [] then Inr ?w2
          else applyOverlaySize sz (upd_customWidth data) (upd_customHeight data) ?w2) = Inr w3"
    "currentOverlayState w3 = ?s" "store w3 = ?s" "window_live w3"
    "trace w3 = trace w @ StoreSet ?s # g" "resolver_calls g = ?calls" "broadcasts g = []"
    by blast
  from w3(4) obtain ow where ow: "overlayWindow w3 = Some ow" "\<not> win_destroyed ow"
    by (rule window_liveE)
  let ?w4 = "win_send w3"
  let ?w5 = "if isActive (currentOverlayState ?w4) \<and> \<not> win_isVisible ?w4 then win_show ?w4
             else if \<not> isActive (currentOverlayState ?w4) \<and> win_isVisible ?w4 then win_hide ?w4
             else ?w4"
  have res: "ipcMain_on_update_overlay data w = Inr ?w5"
    using live2 w3(1) by (simp add: ipcMain_on_update_overlay_def Let_def)
  have "\<exists>post. currentOverlayState ?w5 = ?s \<and> store ?w5 = ?s \<and>
          win_isVisible ?w5 = isActive ?s \<and>
          trace ?w5 = trace w @ (StoreSet ?s # g) @ [SendUpdateOverlay ?s] @ post \<and>
          resolver_calls post = [] \<and> broadcasts post = []"
    using ow w3(2,3,5)
    by (simp add: world_ops resolver_calls_simps broadcasts_simps)
  then obtain post where post: "currentOverlayState ?w5 = ?s" "store ?w5 = ?s"
      "win_isVisible ?w5 = isActive ?s"
      "trace ?w5 = trace w @ (StoreSet ?s # g) @ [SendUpdateOverlay ?s] @ post"
      "resolver_calls post = []" "broadcasts post = []"
    by blast
  have pre: "resolver_calls (StoreSet ?s # g) = ?calls" "broadcasts (StoreSet ?s # g) = []"
    using w3(6,7) by (simp_all add: resolver_calls_simps broadcasts_simps)
  show ?thesis
    using res post pre by blast
qed

lemma update_overlay_no_window:
  assumes "\<not> window_live w"
  shows "ipcMain_on_update_overlay data w =
           Inr (store_set (merge_state (currentOverlayState w) data)
                  (w \<lparr> currentOverlayState := merge_state (currentOverlayState w) data \<rparr>))"
  using assms by (simp add: ipcMain_on_update_overlay_def Let_def world_ops)

text \<open>
  What the handler does about the resolver. While the overlay window is live it enters the
  resolver when the update carries a non-empty \<^verbatim>\<open>size\<close>, once, with the update's own
  size, width and height, and that entry comes before the one broadcast of the merged state.
  The guard is \<^verbatim>\<open>if (data.size)\<close>; nothing compares the update with the prior state,
  although the comment above the guard reads \<^verbatim>\<open>Update size if changed\<close>. Without a
  live window the handler only writes the store.
\<close>

lemma update_overlay_resolver_calls:
  "if window_live w then
     (\<exists>w' pre post. ipcMain_on_update_overlay data w = Inr w' \<and>
        trace w' = trace w @ pre @
          [SendUpdateOverlay (merge_state (currentOverlayState w) data)] @ post \<and>
        resolver_calls pre =
          (case upd_size data of None \<Rightarrow> []
           | Some sz \<Rightarrow> if sz = [] then []
               else [CallApplyOverlaySize sz (upd_customWidth data) (upd_customHeight data)]) \<and>
        broadcasts pre = [] \<and> resolver_calls post = [] \<and> broadcasts post = [])
   else
     (\<exists>w'. ipcMain_on_update_overlay data w = Inr w' \<and>
        trace w' = trace w @ [StoreSet (merge_state (currentOverlayState w) data)])"
proof (cases "window_live w")
  case True
  from update_overlay_live [OF True, of data] show ?thesis
    using True by (simp only: if_True) blast
next
  case False
  then show ?thesis
    by (simp add: update_overlay_no_window world_ops)
qed

text \<open>
  The message sent after a preset colour is picked, handled in the start-up state: one
  entry into the resolver, before the broadcast.
\<close>

lemma update_overlay_resolver_calls_example:
  "window_live world0 \<and>
   (\<exists>w' pre post.
      ipcMain_on_update_overlay (app_message preset_picked False) world0 = Inr w' \<and>
      trace w' = pre @
        [SendUpdateOverlay (merge_state defaults (app_message preset_picked False))] @ post \<and>
      resolver_calls pre = [CallApplyOverlaySize ''fullscreen'' (Some 800) (Some 600)] \<and>
      broadcasts pre = [] \<and> resolver_calls post = [] \<and> broadcasts post = [])"
  using update_overlay_resolver_calls [of world0 "app_message preset_picked False"] world0_live
  by (simp add: world0_def app_message_def updateOverlay_def preset_picked_def)

text \<open>
  C4 does not hold of the code, in either direction, because the guard tests that the
  update has a size and not that the geometry changes. The message the control surface
  sends after a preset colour is picked changes none of \<^verbatim>\<open>size\<close>,
  \<^verbatim>\<open>customWidth\<close> and \<^verbatim>\<open>customHeight\<close>, and the resolver is entered. In custom
  mode an update that carries only \<^verbatim>\<open>customWidth\<close> changes the width from 800 to 400,
  the resolver is not entered, and the window keeps its width of 800.
\<close>

theorem resolver_call_ignores_change:
  "settingsSyncEffect preset_picked = Some (app_message preset_picked False) \<and>
   map_option size_mode (result_state (ipcMain_on_update_overlay
      (app_message preset_picked False) world0)) = Some (size_mode (currentOverlayState world0)) \<and>
   map_option customWidth (result_state (ipcMain_on_update_overlay
      (app_message preset_picked False) world0)) = Some (customWidth (currentOverlayState world0)) \<and>
   map_option customHeight (result_state (ipcMain_on_update_overlay
      (app_message preset_picked False) world0)) = Some (customHeight (currentOverlayState world0)) \<and>
   map_option resolver_calls (result_trace (ipcMain_on_update_overlay
      (app_message preset_picked False) world0)) =
     Some [CallApplyOverlaySize ''fullscreen'' (Some 800) (Some 600)] \<and>
   size_mode (currentOverlayState custom_world) = ''custom'' \<and>
   customWidth (currentOverlayState custom_world) = 800 \<and>
   map_option customWidth (result_state (ipcMain_on_update_overlay
      (empty_update \<lparr> upd_customWidth := Some 400 \<rparr>) custom_world)) = Some 400 \<and>
   map_option resolver_calls (result_trace (ipcMain_on_update_overlay
      (empty_update \<lparr> upd_customWidth := Some 400 \<rparr>) custom_world)) = Some [] \<and>
   map_option bounds_width (result_bounds (ipcMain_on_update_overlay
      (empty_update \<lparr> upd_customWidth := Some 400 \<rparr>) custom_world)) = Some 800"
  by (simp add: ipcMain_on_update_overlay_def applyOverlaySize_def Let_def world_ops
      custom_world_def world0_def defaults_def empty_update_def merge_state_def defined_or_def
      opt_str_or_def str_or_def result_state_def result_trace_def result_bounds_def
      window_bounds_def resolver_calls_simps
      settingsSyncEffect_def preset_picked_def app_message_def updateOverlay_def)

section \<open>The toggle\<close>

text \<open>One toggle on a live window.\<close>

lemma toggleOverlay_live:
  assumes "overlayWindow w = Some ow" and "\<not> win_destroyed ow"
  shows "\<exists>w' post. toggleOverlay w = Inr w' \<and>
           currentOverlayState w' = (currentOverlayState w) \<lparr> isActive := \<not> win_visible ow \<rparr> \<and>
           store w' = currentOverlayState w' \<and>
           overlayWindow w' = Some (ow \<lparr> win_visible := \<not> win_visible ow,
             win_page := (if win_visible ow then win_page ow
                          else render_update_overlay (currentOverlayState w') (win_page ow)) \<rparr>) \<and>
           trace w' = trace w @
             (if win_visible ow then [HideWindow]
              else [SendUpdateOverlay (currentOverlayState w'), ShowWindow]) @
             StoreSet (currentOverlayState w') # post \<and>
           post = (if mainWindow w = Some False then [SendOverlayToggled (\<not> win_visible ow)] else [])"
  using assms
  by (simp add: toggleOverlay_def Let_def world_ops)

text \<open>
  C5: on a live overlay window the toggle sets \<^verbatim>\<open>isActive\<close>, in the state and in the
  store, to the negation of the window's visibility, whatever the stored flag was, and the
  window's visibility to the same value. When the window was hidden, the snapshot is sent
  first and the window shown next, and a second toggle then leaves \<^verbatim>\<open>isActive\<close> false
  and the window hidden. When the window was shown, nothing is sent to it.
\<close>

theorem toggle_follows_visibility:
  assumes "overlayWindow w = Some ow" and "\<not> win_destroyed ow"
  shows "\<exists>w1. toggleOverlay w = Inr w1 \<and>
           isActive (currentOverlayState w1) = (\<not> win_visible ow) \<and>
           isActive (store w1) = (\<not> win_visible ow) \<and>
           win_isVisible w1 = (\<not> win_visible ow) \<and>
           (if win_visible ow then broadcasts (drop (length (trace w)) (trace w1)) = []
            else (\<exists>post. trace w1 = trace w @
                    SendUpdateOverlay (currentOverlayState w1) # ShowWindow # post) \<and>
                 (\<exists>w2. toggleOverlay w1 = Inr w2 \<and>
                    isActive (currentOverlayState w1) \<and> win_isVisible w1 \<and>
                    \<not> isActive (currentOverlayState w2) \<and> \<not> win_isVisible w2))"
proof -
  from toggleOverlay_live [OF assms] obtain w1 post where w1:
    "toggleOverlay w = Inr w1"
    "currentOverlayState w1 = (currentOverlayState w) \<lparr> isActive := \<not> win_visible ow \<rparr>"
    "store w1 = currentOverlayState w1"
    "overlayWindow w1 = Some (ow \<lparr> win_visible := \<not> win_visible ow,
       win_page := (if win_visible ow then win_page ow
                    else render_update_overlay (currentOverlayState w1) (win_page ow)) \<rparr>)"
    "trace w1 = trace w @
       (if win_visible ow then [HideWindow]
        else [SendUpdateOverlay (currentOverlayState w1), ShowWindow]) @
       StoreSet (currentOverlayState w1) # post"
    "post = (if mainWindow w = Some False then [SendOverlayToggled (\<not> win_visible ow)] else [])"
    by blast
  have first: "isActive (currentOverlayState w1) = (\<not> win_visible ow)"
      "isActive (store w1) = (\<not> win_visible ow)" "win_isVisible w1 = (\<not> win_visible ow)"
    using w1(2,3,4) by (simp_all add: win_isVisible_def)
  show ?thesis
  proof (cases "win_visible ow")
    case True
    have "broadcasts (drop (length (trace w)) (trace w1)) = []"
      using w1(5,6) True by (simp add: broadcasts_simps)
    then show ?thesis
      using w1(1) first True by simp
  next
    case False
    let ?ow1 = "ow \<lparr> win_visible := True,
       win_page := render_update_overlay (currentOverlayState w1) (win_page ow) \<rparr>"
    have ow1: "overlayWindow w1 = Some ?ow1" "\<not> win_destroyed ?ow1" "win_visible ?ow1"
      using w1(4) False assms(2) by simp_all
    from toggleOverlay_live [OF ow1(1,2)] obtain w2 where w2:
      "toggleOverlay w1 = Inr w2"
      "currentOverlayState w2 = (currentOverlayState w1) \<lparr> isActive := \<not> win_visible ?ow1 \<rparr>"
      "overlayWindow w2 = Some (?ow1 \<lparr> win_visible := \<not> win_visible ?ow1,
         win_page := (if win_visible ?ow1 then win_page ?ow1
                      else render_update_overlay (currentOverlayState w2) (win_page ?ow1)) \<rparr>)"
      by blast
    have second: "\<not> isActive (currentOverlayState w2)" "\<not> win_isVisible w2"
      using w2(2,3) by (simp_all add: win_isVisible_def)
    have tr: "\<exists>post. trace w1 = trace w @
                SendUpdateOverlay (currentOverlayState w1) # ShowWindow # post"
      using w1(5) False by simp
    show ?thesis
      using w1(1) first False tr w2(1) second by simp
  qed
qed

text \<open>The two toggles from a hidden window whose stored flag has drifted to true.\<close>

theorem toggle_follows_visibility_witness:
  "isActive (currentOverlayState drifted_world) \<and> \<not> win_isVisible drifted_world \<and>
   window_live drifted_world \<and>
   (\<exists>w1. toggleOverlay drifted_world = Inr w1 \<and>
      isActive (currentOverlayState w1) \<and> win_isVisible w1 \<and>
      (\<exists>w2. toggleOverlay w1 = Inr w2 \<and>
         \<not> isActive (currentOverlayState w2) \<and> \<not> win_isVisible w2))"
  using toggle_follows_visibility [of drifted_world
    "\<lparr> win_destroyed = False, win_visible = False, win_fullScreen = True,
       win_bounds = \<lparr> bounds_x = 0, bounds_y = 0, bounds_width = 1920, bounds_height = 1080 \<rparr>,
       win_page = initial_page \<rparr>"]
  by (auto simp add: drifted_world_def world0_def win_isVisible_def window_live_def)

section \<open>The overlay page's opacity\<close>

text \<open>
  C7: for every snapshot the page's handler receives, the opacity it paints is 0 when
  \<^verbatim>\<open>isActive\<close> is false and the snapshot's opacity when it is true; sending a snapshot
  paints the window's page so and leaves the state record and the store as they were.
\<close>

theorem painted_opacity:
  "style_opacity (render_update_overlay data page) = (if isActive data then opacity data else 0) \<and>
   map_option style_opacity (window_page (win_send w)) =
     map_option (\<lambda>_. if isActive (currentOverlayState w) then opacity (currentOverlayState w) else 0)
       (overlayWindow w) \<and>
   currentOverlayState (win_send w) = currentOverlayState w \<and>
   store (win_send w) = store w"
proof -
  have paint: "\<And>d p. style_opacity (render_update_overlay d p) =
      (if isActive d then opacity d else 0)"
    by (simp add: render_update_overlay_def Let_def)
  show ?thesis
    by (cases "overlayWindow w")
      (simp_all add: paint win_send_def on_window_def log_effect_def window_page_def)
qed

text \<open>
  The default state, inactive, paints 0; the same state made active paints its opacity
  0.3; the stored opacity is 0.3 after a broadcast.
\<close>

theorem painted_opacity_witness:
  "style_opacity (render_update_overlay defaults initial_page) = 0 \<and>
   style_opacity (render_update_overlay (defaults \<lparr> isActive := True \<rparr>) initial_page) = 0.3 \<and>
   opacity (currentOverlayState (win_send world0)) = 0.3 \<and>
   opacity (store (win_send world0)) = 0.3"
  using painted_opacity [of defaults initial_page world0]
    painted_opacity [of "defaults \<lparr> isActive := True \<rparr>" initial_page world0]
  by (simp add: defaults_def world0_def)

section \<open>Messages of the control surface\<close>

lemma app_message_position:
  "upd_readingGuidePosition (app_message a act) = Some 50"
  by (simp add: app_message_def updateOverlay_def)

text \<open>The handler returns from every state, with the merged record in the state and the store.\<close>

lemma update_overlay_returns:
  "\<exists>w'. ipcMain_on_update_overlay m w = Inr w' \<and>
          currentOverlayState w' = merge_state (currentOverlayState w) m \<and>
          store w' = merge_state (currentOverlayState w) m"
proof (cases "window_live w")
  case True
  from update_overlay_live [OF True, of m] show ?thesis by blast
next
  case False
  then show ?thesis
    by (simp add: update_overlay_no_window world_ops)
qed

lemma update_overlay_position_50:
  assumes "upd_readingGuidePosition m = Some 50"
  shows "\<exists>w'. ipcMain_on_update_overlay m w = Inr w' \<and>
           readingGuidePosition (currentOverlayState w') = 50 \<and>
           readingGuidePosition (store w') = 50"
proof -
  have "readingGuidePosition (merge_state (currentOverlayState w) m) = 50"
    using assms by (simp add: merge_state_def defined_or_def)
  with update_overlay_returns [of m w] show ?thesis by auto
qed

text \<open>
  C9. Every message the control surface sends, from the settings-sync effect or from the
  toggle button, carries \<^verbatim>\<open>readingGuidePosition\<close> 50, and the handler, from any state
  of the main process, returns with the position 50 in the state and in the store. And the
  messages are sent: with the bridge \<^verbatim>\<open>window.electron\<close> there, the settings-sync
  effect sends one whenever it runs after the initial load, and a click on the toggle
  button 300 ms or more after the last one flips the button's \<^verbatim>\<open>isActive\<close> and sends
  one; each resets the position to 50.
\<close>

theorem control_surface_resets_position:
  "(\<forall>m. settingsSyncEffect a = Some m \<or> snd (handleToggleOverlay now a) = Some m \<longrightarrow>
      upd_readingGuidePosition m = Some 50 \<and>
      (\<exists>w'. ipcMain_on_update_overlay m w = Inr w' \<and>
         readingGuidePosition (currentOverlayState w') = 50 \<and>
         readingGuidePosition (store w') = 50)) \<and>
   (app_hasElectron a \<and> \<not> app_isInitialLoad a \<longrightarrow>
      (\<exists>m w'. settingsSyncEffect a = Some m \<and>
         upd_color m = Some (app_currentColor a) \<and> upd_isActive m = Some (app_isActive a) \<and>
         ipcMain_on_update_overlay m w = Inr w' \<and>
         readingGuidePosition (currentOverlayState w') = 50 \<and>
         readingGuidePosition (store w') = 50)) \<and>
   (app_hasElectron a \<and> 300 \<le> now - app_lastClickTime a \<longrightarrow>
      (\<exists>m w'. snd (handleToggleOverlay now a) = Some m \<and>
         app_isActive (fst (handleToggleOverlay now a)) = (\<not> app_isActive a) \<and>
         upd_isActive m = Some (\<not> app_isActive a) \<and>
         ipcMain_on_update_overlay m w = Inr w' \<and>
         readingGuidePosition (currentOverlayState w') = 50 \<and>
         readingGuidePosition (store w') = 50))"
proof (intro conjI allI impI)
  fix m
  assume "settingsSyncEffect a = Some m \<or> snd (handleToggleOverlay now a) = Some m"
  then obtain act where m: "m = app_message a act"
    by (auto simp add: settingsSyncEffect_def handleToggleOverlay_def Let_def split: if_splits)
  then show "upd_readingGuidePosition m = Some 50"
    by (simp add: app_message_position)
  then show "\<exists>w'. ipcMain_on_update_overlay m w = Inr w' \<and>
         readingGuidePosition (currentOverlayState w') = 50 \<and>
         readingGuidePosition (store w') = 50"
    by (rule update_overlay_position_50)
next
  assume "app_hasElectron a \<and> \<not> app_isInitialLoad a"
  then have sent: "settingsSyncEffect a = Some (app_message a (app_isActive a))"
    by (simp add: settingsSyncEffect_def)
  have fields: "upd_color (app_message a (app_isActive a)) = Some (app_currentColor a)"
    "upd_isActive (app_message a (app_isActive a)) = Some (app_isActive a)"
    by (simp_all add: app_message_def updateOverlay_def)
  from update_overlay_position_50 [OF app_message_position, of a "app_isActive a" w]
  show "\<exists>m w'. settingsSyncEffect a = Some m \<and>
         upd_color m = Some (app_currentColor a) \<and> upd_isActive m = Some (app_isActive a) \<and>
         ipcMain_on_update_overlay m w = Inr w' \<and>
         readingGuidePosition (currentOverlayState w') = 50 \<and>
         readingGuidePosition (store w') = 50"
    using sent fields by auto
next
  assume "app_hasElectron a \<and> 300 \<le> now - app_lastClickTime a"
  then have sent: "snd (handleToggleOverlay now a) = Some (app_message a (\<not> app_isActive a))"
    and flipped: "app_isActive (fst (handleToggleOverlay now a)) = (\<not> app_isActive a)"
    by (simp_all add: handleToggleOverlay_def Let_def)
  have field: "upd_isActive (app_message a (\<not> app_isActive a)) = Some (\<not> app_isActive a)"
    by (simp add: app_message_def updateOverlay_def)
  from update_overlay_position_50 [OF app_message_position, of a "\<not> app_isActive a" w]
  show "\<exists>m w'. snd (handleToggleOverlay now a) = Some m \<and>
         app_isActive (fst (handleToggleOverlay now a)) = (\<not> app_isActive a) \<and>
         upd_isActive m = Some (\<not> app_isActive a) \<and>
         ipcMain_on_update_overlay m w = Inr w' \<and>
         readingGuidePosition (currentOverlayState w') = 50 \<and>
         readingGuidePosition (store w') = 50"
    using sent flipped field by auto
qed

text \<open>
  A nudge has moved the guide from 50 to 55. The message the settings-sync effect sends
  for a colour change puts it back to 50, and so does the message of a click on the toggle
  button one second after start-up.
\<close>

theorem control_surface_resets_position_witness:
  "app_hasElectron preset_picked \<and> \<not> app_isInitialLoad preset_picked \<and>
   300 \<le> 1000 - app_lastClickTime preset_picked \<and>
   readingGuidePosition (currentOverlayState (moveReadingGuideDown (guide_world 50 5))) = 55 \<and>
   settingsSyncEffect preset_picked = Some (app_message preset_picked False) \<and>
   snd (handleToggleOverlay 1000 preset_picked) = Some (app_message preset_picked True) \<and>
   upd_readingGuidePosition (app_message preset_picked False) = Some 50 \<and>
   upd_readingGuidePosition (app_message preset_picked True) = Some 50 \<and>
   (\<exists>w'. ipcMain_on_update_overlay (app_message preset_picked False)
            (moveReadingGuideDown (guide_world 50 5)) = Inr w' \<and>
      readingGuidePosition (currentOverlayState w') = 50 \<and>
      readingGuidePosition (store w') = 50) \<and>
   (\<exists>w'. ipcMain_on_update_overlay (app_message preset_picked True)
            (moveReadingGuideDown (guide_world 50 5)) = Inr w' \<and>
      readingGuidePosition (currentOverlayState w') = 50 \<and>
      readingGuidePosition (store w') = 50)"
proof -
  let ?w = "moveReadingGuideDown (guide_world 50 5)"
  have sync: "settingsSyncEffect preset_picked = Some (app_message preset_picked False)"
    by (simp add: settingsSyncEffect_def preset_picked_def)
  have click: "snd (handleToggleOverlay 1000 preset_picked) = Some (app_message preset_picked True)"
    by (simp add: handleToggleOverlay_def Let_def preset_picked_def)
  have pre: "app_hasElectron preset_picked" "\<not> app_isInitialLoad preset_picked"
    "300 \<le> 1000 - app_lastClickTime preset_picked"
    by (simp_all add: preset_picked_def)
  have moved: "readingGuidePosition (currentOverlayState ?w) = 55"
    by (simp add: nudge_down_state guide_world_state num_or_def)
  note reset = control_surface_resets_position [of preset_picked 1000 ?w]
  from reset sync have 1: "upd_readingGuidePosition (app_message preset_picked False) = Some 50 \<and>
      (\<exists>w'. ipcMain_on_update_overlay (app_message preset_picked False) ?w = Inr w' \<and>
         readingGuidePosition (currentOverlayState w') = 50 \<and>
         readingGuidePosition (store w') = 50)"
    by blast
  from reset click have 2: "upd_readingGuidePosition (app_message preset_picked True) = Some 50 \<and>
      (\<exists>w'. ipcMain_on_update_overlay (app_message preset_picked True) ?w = Inr w' \<and>
         readingGuidePosition (currentOverlayState w') = 50 \<and>
         readingGuidePosition (store w') = 50)"
    by blast
  show ?thesis
    using pre moved sync click 1 2 by simp
qed

end
